theory Spec2Isabelle
  imports Main "HOL-Library.Word"
begin

unbundle bit_operations_syntax

section \<open>Machine types and constants of the trap layer\<close>

text \<open>
  The trap layer of ZeroVM (\<^verbatim>\<open>src/syscalls/trap.c\<close>) is written for x86-64 Linux:
  \<^verbatim>\<open>int\<close>, \<^verbatim>\<open>int32_t\<close> and \<^verbatim>\<open>uint32_t\<close> are 32-bit words, \<^verbatim>\<open>int64_t\<close>,
  \<^verbatim>\<open>uint64_t\<close>, \<^verbatim>\<open>uintptr_t\<close>, \<^verbatim>\<open>size_t\<close> and \<^verbatim>\<open>off_t\<close> are 64-bit words.
  Signed quantities are compared with \<open><s\<close> and \<open>\<le>s\<close>, unsigned ones with \<open><\<close> and
  \<open>\<le>\<close>. Arithmetic wraps around; a narrowing conversion keeps the low bits (\<open>ucast\<close>),
  a widening conversion of a signed value extends the sign (\<open>scast\<close>).
\<close>

type_synonym int32_t = "32 word"
type_synonym uint32_t = "32 word"
type_synonym int64_t = "64 word"
type_synonym uint64_t = "64 word"
type_synonym uintptr_t = "64 word"

text \<open>Error numbers of \<^verbatim>\<open>errno.h\<close> (Linux).\<close>

definition EPERM :: int32_t where "EPERM = 1"
definition EACCES :: int32_t where "EACCES = 13"
definition EFAULT :: int32_t where "EFAULT = 14"
definition EINVAL :: int32_t where "EINVAL = 22"
definition EDQUOT :: int32_t where "EDQUOT = 122"

text \<open>Protection bits of \<^verbatim>\<open>sys/mman.h\<close> (Linux).\<close>

definition PROT_NONE :: int32_t where "PROT_NONE = 0"
definition PROT_READ :: int32_t where "PROT_READ = 1"
definition PROT_WRITE :: int32_t where "PROT_WRITE = 2"
definition PROT_EXEC :: int32_t where "PROT_EXEC = 4"

text \<open>
  The macro \<^verbatim>\<open>MIN(a, b)\<close> of the C library headers, \<^verbatim>\<open>((a) < (b) ? (a) : (b))\<close>, here
  \<open>MIN64\<close>: at the type its operands have in the read handler after the usual
  arithmetic conversions, signed 64 bits.
\<close>

definition MIN64 :: "int64_t \<Rightarrow> int64_t \<Rightarrow> int64_t" where
  "MIN64 a b = (if a <s b then a else b)"

section \<open>Channels and the session\<close>

text \<open>
  Modelled from the spec: \<^verbatim>\<open>struct ChannelDesc\<close> and the enumeration of limits, which
  \<^verbatim>\<open>src/channels/channel.h\<close> declares and the sources at hand do not include. The record
  has the fields that \<^verbatim>\<open>trap.c\<close> reads, signed 64 bits wide as the \<^verbatim>\<open>int64_t\<close> offset
  and \<^verbatim>\<open>tail\<close> they are compared with. \<open>size_ch\<close> and \<open>alias_ch\<close> are the fields
  \<^verbatim>\<open>size\<close> and \<^verbatim>\<open>alias\<close>; \<open>chtype\<close> is the access mode (sequential or random, for
  reading and for writing) that the macros \<^verbatim>\<open>CH_SEQ_READABLE\<close>, \<^verbatim>\<open>CH_SEQ_WRITEABLE\<close> and
  \<^verbatim>\<open>CH_RND_WRITEABLE\<close> inspect. The arrays \<^verbatim>\<open>limits\<close> and \<^verbatim>\<open>counters\<close> are indexed by the
  enumeration, so they are functions on it.
\<close>

datatype ChannelLimits = GetsLimit | GetSizeLimit | PutsLimit | PutSizeLimit

record ChannelDesc =
  alias_ch :: string
  chtype :: nat
  size_ch :: int64_t
  getpos :: int64_t
  putpos :: int64_t
  eof :: bool
  limits :: "ChannelLimits \<Rightarrow> int64_t"
  counters :: "ChannelLimits \<Rightarrow> int64_t"

text \<open>Modelled from the spec: the report that \<^verbatim>\<open>ReportSetupPtr()\<close> points to (declared in
  \<^verbatim>\<open>src/main/report.h\<close>), with the fields the exit handler reads and writes.\<close>

record ReportSetup =
  user_code :: uint64_t
  zvm_code :: int32_t
  zvm_state :: "string option"

text \<open>Lines written to the log and to the trace file.\<close>

datatype loglevel = LOG_ERROR | LOG_DEBUG | LOG_INSANE

datatype event =
  Log loglevel string
  | Trace string
  | SyscallTrace uint64_t "uint64_t list"

text \<open>
  The state a trap works on: the channel table of the manifest
  (\<^verbatim>\<open>nap->manifest->channels\<close>), the report, the log, and \<open>host\<close>: everything the
  collaborators own (the user memory with its page map, the channels' backends).
\<close>

record 'h session =
  channels :: "ChannelDesc list"
  host :: 'h
  report :: ReportSetup
  zlog :: "event list"

text \<open>
  The collaborators of the trap layer and the constants of headers that are not part of
  \<^verbatim>\<open>trap.c\<close>, taken as parameters. \<open>Zmprotect\<close> returns its result, the \<^verbatim>\<open>errno\<close> it
  leaves and the new host state; \<open>ChannelRead\<close> and \<open>ChannelWrite\<close> get the channel by
  its index in the table; \<open>load64\<close> reads a 64-bit word of host memory; \<open>SessionDtor\<close>
  gives the state the session ends in (it does not return to the caller).
\<close>

record 'h collaborators =
  NACL_MAP_PAGESIZE :: nat
  TrapFork :: uint64_t
  TrapExit :: uint64_t
  TrapRead :: uint64_t
  TrapWrite :: uint64_t
  TrapProt :: uint64_t
  TrapTest :: uint64_t
  NaClUserToSys :: "uintptr_t \<Rightarrow> uintptr_t"
  NaClUserToSysAddrNullOkay :: "uintptr_t \<Rightarrow> uintptr_t"
  load64 :: "'h \<Rightarrow> uintptr_t \<Rightarrow> uint64_t"
  CheckUserMap :: "'h \<Rightarrow> uintptr_t \<Rightarrow> uint32_t \<Rightarrow> int32_t \<Rightarrow> int32_t"
  Zmprotect :: "'h \<Rightarrow> uintptr_t \<Rightarrow> uint32_t \<Rightarrow> int32_t \<Rightarrow> int32_t \<times> int32_t \<times> 'h"
  NaClSegmentValidates :: "'h \<Rightarrow> uintptr_t \<Rightarrow> uint32_t \<Rightarrow> uintptr_t \<Rightarrow> int32_t"
  CH_SEQ_READABLE :: "ChannelDesc \<Rightarrow> bool"
  CH_SEQ_WRITEABLE :: "ChannelDesc \<Rightarrow> bool"
  CH_RND_WRITEABLE :: "ChannelDesc \<Rightarrow> bool"
  ChannelRead ::
    "'h session \<Rightarrow> nat \<Rightarrow> uintptr_t \<Rightarrow> uint64_t \<Rightarrow> int64_t \<Rightarrow> int32_t \<times> 'h session"
  ChannelWrite ::
    "'h session \<Rightarrow> nat \<Rightarrow> uintptr_t \<Rightarrow> uint64_t \<Rightarrow> int64_t \<Rightarrow> int32_t \<times> 'h session"
  Daemon :: "'h session \<Rightarrow> int32_t \<times> 'h session"
  SaveSession :: "'h session \<Rightarrow> 'h session"
  SessionDtor :: "'h session \<Rightarrow> 'h session"

section \<open>The protection handler\<close>

text \<open>
  \<^verbatim>\<open>ZVMProtHandle(addr, size, prot)\<close>. The handler works on the host state only.
  \<open>put_protection\<close> is the statement both groups of cases end with,
  \<^verbatim>\<open>if(Zmprotect((void*)sysaddr, size, prot) != 0) result = -errno;\<close>.
\<close>

definition put_protection ::
  "'h collaborators \<Rightarrow> 'h \<Rightarrow> uintptr_t \<Rightarrow> uint32_t \<Rightarrow> int32_t \<Rightarrow> int32_t \<times> 'h" where
  "put_protection E h sysaddr size' prot =
     (case Zmprotect E h sysaddr size' prot of
        (rc, errno, h') \<Rightarrow> (if rc \<noteq> 0 then - errno else 0, h'))"

definition ZVMProtHandle ::
  "'h collaborators \<Rightarrow> 'h \<Rightarrow> uintptr_t \<Rightarrow> uint32_t \<Rightarrow> int32_t \<Rightarrow> int32_t \<times> 'h" where
  "ZVMProtHandle E h addr size' prot =
     (let sysaddr = NaClUserToSysAddrNullOkay E addr in
      if unat size' mod NACL_MAP_PAGESIZE E \<noteq> 0 then (- EINVAL, h)
      else if unat sysaddr mod NACL_MAP_PAGESIZE E \<noteq> 0 then (- EINVAL, h)
      else if CheckUserMap E h sysaddr size' 0 <s 0 then (- EACCES, h)
      else if prot = PROT_NONE \<or> prot = PROT_READ \<or> prot = PROT_WRITE
              \<or> prot = PROT_READ OR PROT_WRITE
        then put_protection E h sysaddr size' prot
      else if prot = PROT_EXEC \<or> prot = PROT_READ OR PROT_EXEC
        then (if CheckUserMap E h sysaddr size' PROT_READ \<noteq> 0 then (- EACCES, h)
              else if NaClSegmentValidates E h sysaddr size' addr = 0 then (- EPERM, h)
              else put_protection E h sysaddr size' prot)
      else (- EPERM, h))"

section \<open>Logging and tracing\<close>

text \<open>
  Modelled from the spec: \<^verbatim>\<open>ZLOG\<close>, \<^verbatim>\<open>ZLOGS\<close>, \<^verbatim>\<open>ZTrace\<close> and \<^verbatim>\<open>SyscallZTrace\<close>, which
  \<^verbatim>\<open>trap.c\<close> calls and does not define. They write to the log and to the trace sink and
  have no other effect: each appends one line to \<open>zlog\<close>.
\<close>

definition emit :: "event \<Rightarrow> 'h session \<Rightarrow> 'h session" where
  "emit e nap = nap\<lparr>zlog := zlog nap @ [e]\<rparr>"

definition ZLOGS :: "loglevel \<Rightarrow> string \<Rightarrow> 'h session \<Rightarrow> 'h session" where
  "ZLOGS level fmt nap = emit (Log level fmt) nap"

definition ZTrace :: "string \<Rightarrow> 'h session \<Rightarrow> 'h session" where
  "ZTrace msg nap = emit (Trace msg) nap"

definition SyscallZTrace :: "uint64_t \<Rightarrow> uint64_t list \<Rightarrow> 'h session \<Rightarrow> 'h session" where
  "SyscallZTrace fn args nap = emit (SyscallTrace fn args) nap"

text \<open>Two sessions that differ in the log at most.\<close>

definition same_but_log :: "'h session \<Rightarrow> 'h session \<Rightarrow> bool" where
  "same_but_log nap nap' \<longleftrightarrow>
     channels nap' = channels nap \<and> host nap' = host nap \<and> report nap' = report nap"

section \<open>The read and write handlers\<close>

text \<open>
  \<^verbatim>\<open>ZVMReadHandle(nap, ch, buffer, size, offset)\<close>. The C variables \<^verbatim>\<open>size\<close> and
  \<^verbatim>\<open>offset\<close> are assigned to on the way; the model rebinds \<open>size'\<close> and \<open>offset\<close>.
  \<^verbatim>\<open>ch >= len\<close> compares with the unsigned length of the table. The clamp
  \<^verbatim>\<open>size = MIN(channel->size - offset, size)\<close> is computed in 64 bits and stored in the
  32-bit \<^verbatim>\<open>size\<close>; so is \<^verbatim>\<open>size = tail\<close>.
\<close>

definition ZVMReadHandle ::
  "'h collaborators \<Rightarrow> 'h session \<Rightarrow> int32_t \<Rightarrow> uintptr_t \<Rightarrow> int32_t \<Rightarrow> int64_t
     \<Rightarrow> int32_t \<times> 'h session" where
  "ZVMReadHandle E nap ch buffer size' offset =
     (if ch <s 0 \<or> length (channels nap) \<le> unat ch
      then (- EINVAL,
            ZLOGS LOG_DEBUG ''channel_id=%d, buffer=%p, size=%d, offset=%ld'' nap)
      else
        let channel = channels nap ! unat ch;
            nap = ZLOGS LOG_INSANE ''channel %s, buffer=%p, size=%d, offset=%ld'' nap
        in
        if size' <s 0 then (- EFAULT, nap)
        else if offset <s 0 then (- EINVAL, nap)
        else if size' = 0 then (0, nap)
        else
          let sys_buffer = NaClUserToSysAddrNullOkay E buffer in
          if CheckUserMap E (host nap) sys_buffer size' PROT_WRITE = - 1 then (- EINVAL, nap)
          else
            let seq = CH_SEQ_READABLE E channel;
                offset = (if seq then getpos channel else offset);
                size' = (if seq then size'
                         else ucast (MIN64 (size_ch channel - offset) (scast size')))
            in
            if \<not> seq \<and> size' = 0 then (0, nap)
            else if eof channel then (0, nap)
            else if limits channel GetsLimit \<le>s counters channel GetsLimit
              then (- EDQUOT, nap)
            else
              let tail = limits channel GetSizeLimit - counters channel GetSizeLimit;
                  size' = (if tail <s scast size' then ucast tail else size')
              in
              if size' <s 1 then (- EDQUOT, nap)
              else ChannelRead E nap (unat ch) sys_buffer (scast size') offset)"

text \<open>\<^verbatim>\<open>ZVMWriteHandle(nap, ch, buffer, size, offset)\<close>.\<close>

definition ZVMWriteHandle ::
  "'h collaborators \<Rightarrow> 'h session \<Rightarrow> int32_t \<Rightarrow> uintptr_t \<Rightarrow> int32_t \<Rightarrow> int64_t
     \<Rightarrow> int32_t \<times> 'h session" where
  "ZVMWriteHandle E nap ch buffer size' offset =
     (if ch <s 0 \<or> length (channels nap) \<le> unat ch
      then (- EINVAL,
            ZLOGS LOG_DEBUG ''channel_id=%d, buffer=%p, size=%d, offset=%ld'' nap)
      else
        let channel = channels nap ! unat ch;
            nap = ZLOGS LOG_INSANE ''channel %s, buffer=%p, size=%d, offset=%ld'' nap
        in
        if size' <s 0 then (- EFAULT, nap)
        else if offset <s 0 then (- EINVAL, nap)
        else if size' = 0 then (0, nap)
        else
          let sys_buffer = NaClUserToSysAddrNullOkay E buffer in
          if CheckUserMap E (host nap) sys_buffer size' PROT_READ = - 1 then (- EINVAL, nap)
          else
            let offset = (if CH_SEQ_WRITEABLE E channel then putpos channel else offset) in
            if limits channel PutsLimit \<le>s counters channel PutsLimit then (- EDQUOT, nap)
            else
              let tail = limits channel PutSizeLimit - counters channel PutSizeLimit in
              if CH_RND_WRITEABLE E channel \<and> limits channel PutSizeLimit \<le>s offset
                then (- EINVAL, nap)
              else if size_ch channel + tail \<le>s offset then (- EINVAL, nap)
              else
                let size' = (if tail <s scast size' then ucast tail else size') in
                if size' <s 1 then (- EDQUOT, nap)
                else ChannelWrite E nap (unat ch) sys_buffer (scast size') offset)"

section \<open>Exit, test and the trap dispatcher\<close>

text \<open>Modelled from the spec: \<^verbatim>\<open>OK_STATE\<close>, the label "ok" of a session that ended
  well.\<close>

definition OK_STATE :: string where
  "OK_STATE = ''ok''"

text \<open>
  \<^verbatim>\<open>ZVMExitHandle(nap, code)\<close> records the code and ends the session: the result is the
  state \<open>SessionDtor\<close> is called on, as it leaves it.
\<close>

definition ZVMExitHandle :: "'h collaborators \<Rightarrow> 'h session \<Rightarrow> uint64_t \<Rightarrow> 'h session" where
  "ZVMExitHandle E nap code =
     (let r = (report nap)\<lparr>user_code := code\<rparr>;
          r = (if zvm_code r = 0 then r\<lparr>zvm_state := Some OK_STATE\<rparr> else r);
          nap = ZLOGS LOG_DEBUG ''SESSION %s RETURNED %lu'' (nap\<lparr>report := r\<rparr>)
      in SessionDtor E nap)"

definition ZVMTestHandle :: "'h collaborators \<Rightarrow> 'h session \<Rightarrow> 'h session" where
  "ZVMTestHandle E nap = SaveSession E nap"

text \<open>
  A trap either returns a code to the guest or ends the session. \<open>sarg E nap sargs i\<close>
  is \<^verbatim>\<open>sargs[i]\<close>, read from the memory of the state at hand.
\<close>

datatype 'h trap_result = Returned int32_t "'h session" | Ended "'h session"

definition sarg :: "'h collaborators \<Rightarrow> 'h session \<Rightarrow> uintptr_t \<Rightarrow> nat \<Rightarrow> uint64_t" where
  "sarg E nap sargs i = load64 E (host nap) (sargs + 8 * of_nat i)"

text \<open>The end of \<^verbatim>\<open>TrapHandler\<close>: log, trace and return.\<close>

definition ztrace_and_return ::
  "'h collaborators \<Rightarrow> uintptr_t \<Rightarrow> int32_t \<times> 'h session \<Rightarrow> 'h trap_result" where
  "ztrace_and_return E sargs r =
     (case r of (retcode, nap) \<Rightarrow>
        let nap = ZLOGS LOG_DEBUG ''%s returned %d'' nap in
        Returned retcode
          (SyscallZTrace (sarg E nap sargs 0)
             [scast retcode, sarg E nap sargs 2, sarg E nap sargs 3,
              sarg E nap sargs 4, sarg E nap sargs 5] nap))"

definition TrapHandler :: "'h collaborators \<Rightarrow> 'h session \<Rightarrow> uint32_t \<Rightarrow> 'h trap_result" where
  "TrapHandler E nap args =
     (if - 48 < args then Returned (- EFAULT) nap
      else
        let sargs = NaClUserToSys E (ucast args);
            nap = ZLOGS LOG_DEBUG ''%s called'' nap;
            nap = ZTrace ''untrusted code'' nap;
            fn = sarg E nap sargs 0
        in
        if fn = TrapFork E then
          (case Daemon E nap of (retcode, nap) \<Rightarrow>
             if retcode \<noteq> 0 then ztrace_and_return E sargs (retcode, nap)
             else
               let nap = SyscallZTrace (sarg E nap sargs 0) [0] nap;
                   nap = SyscallZTrace (TrapExit E) [0] nap
               in Ended (ZVMExitHandle E nap 0))
        else if fn = TrapExit E then
          Ended (ZVMExitHandle E (SyscallZTrace fn [sarg E nap sargs 2] nap)
                   (sarg E nap sargs 2))
        else if fn = TrapRead E then
          ztrace_and_return E sargs
            (ZVMReadHandle E nap (ucast (sarg E nap sargs 2)) (sarg E nap sargs 3)
               (ucast (sarg E nap sargs 4)) (sarg E nap sargs 5))
        else if fn = TrapWrite E then
          ztrace_and_return E sargs
            (ZVMWriteHandle E nap (ucast (sarg E nap sargs 2)) (sarg E nap sargs 3)
               (ucast (sarg E nap sargs 4)) (sarg E nap sargs 5))
        else if fn = TrapProt E then
          ztrace_and_return E sargs
            (case ZVMProtHandle E (host nap)
                    (ucast (ucast (sarg E nap sargs 2) :: uint32_t))
                    (ucast (sarg E nap sargs 3)) (ucast (sarg E nap sargs 4)) of
               (retcode, h) \<Rightarrow> (retcode, nap\<lparr>host := h\<rparr>))
        else if fn = TrapTest E then
          Ended (ZVMExitHandle E (ZVMTestHandle E nap) 0)
        else
          ztrace_and_return E sargs
            (- EPERM, ZLOGS LOG_ERROR ''function %ld is not supported'' nap))"

section \<open>An example session\<close>

text \<open>
  A small instance of the parameters, on which the theorems below are instantiated: one
  user region at host address \<open>2 ^ 32\<close> with a single protection, a validator that
  accepts the region or not as the host state says, memory as a list of words, and
  channel back ends that transfer what they are asked to.
\<close>

record example_host =
  prot_bits :: int32_t
  validates :: bool
  mem :: "(uintptr_t \<times> uint64_t) list"

definition example_collaborators :: "example_host collaborators" where
  "example_collaborators =
     \<lparr>NACL_MAP_PAGESIZE = 65536,
      TrapFork = 1, TrapExit = 2, TrapRead = 3, TrapWrite = 4, TrapProt = 5, TrapTest = 6,
      NaClUserToSys = (\<lambda>a. a + 4294967296),
      NaClUserToSysAddrNullOkay = (\<lambda>a. a + 4294967296),
      load64 = (\<lambda>h a. case map_of (mem h) a of Some v \<Rightarrow> v | None \<Rightarrow> 0),
      CheckUserMap = (\<lambda>h a n p. if p AND prot_bits h = p then 0 else - 1),
      Zmprotect = (\<lambda>h a n p. (0, 0, h\<lparr>prot_bits := p\<rparr>)),
      NaClSegmentValidates = (\<lambda>h a n v. if validates h then 1 else 0),
      CH_SEQ_READABLE = (\<lambda>c. chtype c = 0 \<or> chtype c = 2),
      CH_SEQ_WRITEABLE = (\<lambda>c. chtype c = 0 \<or> chtype c = 1),
      CH_RND_WRITEABLE = (\<lambda>c. chtype c = 2 \<or> chtype c = 3),
      ChannelRead = (\<lambda>nap i buf n off. (ucast n, nap)),
      ChannelWrite = (\<lambda>nap i buf n off. (ucast n, nap)),
      Daemon = (\<lambda>nap. (0, nap)),
      SaveSession = (\<lambda>nap. nap),
      SessionDtor = (\<lambda>nap. nap)\<rparr>"

text \<open>A channel of the given access type, size, write cursor and end-of-file flag; \<open>n\<close>
  and \<open>k\<close> are the limit and the counter of operations, \<open>m\<close> and \<open>b\<close> the limit and the
  counter of bytes, for reads and writes alike.\<close>

definition example_channel ::
  "nat \<Rightarrow> int64_t \<Rightarrow> int64_t \<Rightarrow> bool \<Rightarrow> int64_t \<Rightarrow> int64_t \<Rightarrow> int64_t \<Rightarrow> int64_t
     \<Rightarrow> ChannelDesc" where
  "example_channel t sz pos e n k m b =
     \<lparr>alias_ch = ''/dev/example'', chtype = t, size_ch = sz, getpos = 0, putpos = pos,
      eof = e,
      limits = (\<lambda>l. if l = GetsLimit \<or> l = PutsLimit then n else m),
      counters = (\<lambda>l. if l = GetsLimit \<or> l = PutsLimit then k else b)\<rparr>"

text \<open>A session with one channel; the user region is readable and writable, its bytes do
  not validate, and the words at the guest addresses \<open>2 ^ 32 - 16\<close> and 4096 are 999.\<close>

definition example_session :: "ChannelDesc \<Rightarrow> example_host session" where
  "example_session c =
     \<lparr>channels = [c],
      host = \<lparr>prot_bits = 3, validates = False,
              mem = [(8589934576, 999), (4294971392, 999)]\<rparr>,
      report = \<lparr>user_code = 0, zvm_code = 0, zvm_state = None\<rparr>,
      zlog = []\<rparr>"

section \<open>Auxiliary facts\<close>

lemmas errno_defs = EPERM_def EACCES_def EFAULT_def EINVAL_def EDQUOT_def
lemmas prot_defs = PROT_NONE_def PROT_READ_def PROT_WRITE_def PROT_EXEC_def
lemmas log_defs = ZLOGS_def ZTrace_def SyscallZTrace_def emit_def
lemmas example_defs = example_collaborators_def example_session_def example_channel_def
lemmas signed_defs = word_sless_alt word_sle_eq

lemma host_ZLOGS [simp]: "host (ZLOGS level fmt nap) = host nap"
  by (simp add: log_defs)

lemma channels_ZLOGS [simp]: "channels (ZLOGS level fmt nap) = channels nap"
  by (simp add: log_defs)

lemma same_but_log_ZLOGS: "same_but_log nap (ZLOGS level fmt nap)"
  by (simp add: same_but_log_def log_defs)

lemma positive_size:
  assumes "0 <s (size' :: int32_t)"
  shows "size' \<noteq> 0" and "\<not> size' <s 0"
  using assms by (auto simp: word_sless_alt)

section \<open>The protection handler: alignment and validation\<close>

text \<open>
  Claim C1. A request for \<^verbatim>\<open>PROT_EXEC\<close> or \<^verbatim>\<open>PROT_READ | PROT_EXEC\<close> over a range that
  is page-aligned, mapped (\<open>CheckUserMap\<close> with no permission is not negative) and
  readable (\<open>CheckUserMap\<close> with \<^verbatim>\<open>PROT_READ\<close> is 0): if the validator rejects the range
  (returns 0), the handler returns \<open>- EPERM\<close> and the host state, page protections
  included, is the one before the call; if the validator accepts, the result is that of
  the protection change, which is applied in this case only.
\<close>

theorem ZVMProtHandle_exec_fail_closed:
  assumes "prot = PROT_EXEC \<or> prot = PROT_READ OR PROT_EXEC"
    and "sysaddr = NaClUserToSysAddrNullOkay E addr"
    and "unat size' mod NACL_MAP_PAGESIZE E = 0"
    and "unat sysaddr mod NACL_MAP_PAGESIZE E = 0"
    and "\<not> CheckUserMap E h sysaddr size' 0 <s 0"
    and "CheckUserMap E h sysaddr size' PROT_READ = 0"
  shows "(NaClSegmentValidates E h sysaddr size' addr = 0
            \<longrightarrow> ZVMProtHandle E h addr size' prot = (- EPERM, h))
       \<and> (NaClSegmentValidates E h sysaddr size' addr \<noteq> 0
            \<longrightarrow> ZVMProtHandle E h addr size' prot = put_protection E h sysaddr size' prot)"
  using assms by (auto simp: ZVMProtHandle_def Let_def prot_defs)

theorem ZVMProtHandle_exec_fail_closed_witness:
  "NaClSegmentValidates example_collaborators
       \<lparr>prot_bits = 3, validates = False, mem = []\<rparr> 4295032832 65536 65536 = 0
   \<and> ZVMProtHandle example_collaborators
         \<lparr>prot_bits = 3, validates = False, mem = []\<rparr> 65536 65536 PROT_EXEC
       = (- EPERM, \<lparr>prot_bits = 3, validates = False, mem = []\<rparr>)
   \<and> NaClSegmentValidates example_collaborators
       \<lparr>prot_bits = 3, validates = True, mem = []\<rparr> 4295032832 65536 65536 = 1
   \<and> ZVMProtHandle example_collaborators
         \<lparr>prot_bits = 3, validates = True, mem = []\<rparr> 65536 65536 PROT_EXEC
       = put_protection example_collaborators
           \<lparr>prot_bits = 3, validates = True, mem = []\<rparr> 4295032832 65536 PROT_EXEC"
  using ZVMProtHandle_exec_fail_closed
          [of PROT_EXEC 4295032832 example_collaborators 65536 65536
              "\<lparr>prot_bits = 3, validates = False, mem = []\<rparr>"]
        ZVMProtHandle_exec_fail_closed
          [of PROT_EXEC 4295032832 example_collaborators 65536 65536
              "\<lparr>prot_bits = 3, validates = True, mem = []\<rparr>"]
  by (simp add: example_collaborators_def prot_defs signed_defs)

text \<open>
  The alignment tests of the handler are made on the size and on the host address
  \<^verbatim>\<open>sysaddr\<close> that \<open>NaClUserToSysAddrNullOkay\<close> gives for the address of the request.
\<close>

lemma ZVMProtHandle_unaligned_sysaddr:
  assumes "unat size' mod NACL_MAP_PAGESIZE E \<noteq> 0
           \<or> unat (NaClUserToSysAddrNullOkay E addr) mod NACL_MAP_PAGESIZE E \<noteq> 0"
  shows "ZVMProtHandle E h addr size' prot = (- EINVAL, h)"
  using assms by (auto simp: ZVMProtHandle_def Let_def)

text \<open>
  Claim C7. When the address \<open>addr\<close> of a protection request or its size is not a
  multiple of \<^verbatim>\<open>NACL_MAP_PAGESIZE\<close>, the handler returns \<open>- EINVAL\<close> and the host state
  is the one before the call: whatever the protection flags, the page map and the
  other collaborators are. The translation \<open>NaClUserToSysAddrNullOkay\<close> is a parameter;
  the first hypothesis says of it what the claim needs, that the host address of
  \<open>addr\<close> is a multiple of the page size exactly when \<open>addr\<close> is.
\<close>

theorem ZVMProtHandle_unaligned_EINVAL:
  assumes "(unat (NaClUserToSysAddrNullOkay E addr) mod NACL_MAP_PAGESIZE E = 0)
           = (unat addr mod NACL_MAP_PAGESIZE E = 0)"
    and "unat addr mod NACL_MAP_PAGESIZE E \<noteq> 0 \<or> unat size' mod NACL_MAP_PAGESIZE E \<noteq> 0"
  shows "ZVMProtHandle E h addr size' prot = (- EINVAL, h)"
  using assms by (auto simp: ZVMProtHandle_def Let_def)

theorem ZVMProtHandle_unaligned_EINVAL_witness:
  "unat (4097 :: uintptr_t) mod NACL_MAP_PAGESIZE example_collaborators = 4097
   \<and> unat (NaClUserToSysAddrNullOkay example_collaborators 4097)
         mod NACL_MAP_PAGESIZE example_collaborators = 4097
   \<and> ZVMProtHandle example_collaborators
         \<lparr>prot_bits = 3, validates = True, mem = []\<rparr> 4097 65536 PROT_READ
       = (- EINVAL, \<lparr>prot_bits = 3, validates = True, mem = []\<rparr>)
   \<and> unat (4096 :: uint32_t) mod NACL_MAP_PAGESIZE example_collaborators = 4096
   \<and> unat (NaClUserToSysAddrNullOkay example_collaborators 65536)
         mod NACL_MAP_PAGESIZE example_collaborators = 0
   \<and> ZVMProtHandle example_collaborators
         \<lparr>prot_bits = 3, validates = True, mem = []\<rparr> 65536 4096 PROT_EXEC
       = (- EINVAL, \<lparr>prot_bits = 3, validates = True, mem = []\<rparr>)"
  using ZVMProtHandle_unaligned_EINVAL
          [of example_collaborators 4097 65536
              "\<lparr>prot_bits = 3, validates = True, mem = []\<rparr>" PROT_READ]
        ZVMProtHandle_unaligned_EINVAL
          [of example_collaborators 65536 4096
              "\<lparr>prot_bits = 3, validates = True, mem = []\<rparr>" PROT_EXEC]
  by (simp add: example_collaborators_def)

section \<open>The read handler\<close>

text \<open>
  The clamp of a random-access read. With a positive size and an offset below the size
  \<open>S\<close> of the channel, no step of \<^verbatim>\<open>size = MIN(channel->size - offset, size)\<close> wraps
  around or loses bits: the new size is the smaller of the size asked for and \<open>S - offset\<close>.
  At the offset \<open>S\<close> itself the new size is 0 and the read returns 0.
\<close>

lemma sint_scast_up: "sint (scast (x :: int32_t) :: int64_t) = sint x"
  by (simp add: sint_up_scast is_up)

lemma sint_sub_in_range:
  fixes S offset :: int64_t
  assumes "\<not> offset <s 0" and "offset <s S"
  shows "sint (S - offset) = sint S - sint offset"
proof -
  have bounds: "sint S < 2 ^ 63" "- (2 ^ 63) \<le> sint offset"
    using sint_lt [of S] sint_ge [of offset] by simp_all
  from assms have "0 \<le> sint offset" "sint offset < sint S"
    by (simp_all add: word_sless_alt)
  then have "- (2 ^ 63) \<le> sint S - sint offset" "sint S - sint offset < 2 ^ 63"
    using bounds by linarith+
  then show ?thesis
    by (simp add: sint_word_ariths signed_take_bit_int_eq_self)
qed

lemma sint_ucast_down:
  fixes w :: int64_t
  assumes "0 \<le> sint w" and "sint w < 2 ^ 31"
  shows "sint (ucast w :: int32_t) = sint w"
proof -
  have "uint w = take_bit 64 (sint w)"
    by (simp add: uint_sint)
  also have "\<dots> = sint w"
    using assms by (simp add: take_bit_int_eq_self)
  finally have "sint (ucast w :: int32_t) = signed_take_bit 31 (sint w)"
    by (simp add: signed_ucast_eq)
  with assms show ?thesis
    by (simp add: signed_take_bit_int_eq_self)
qed

lemma read_clamp_below_size:
  fixes size' :: int32_t
  assumes "0 <s size'" and "\<not> offset <s 0" and "offset <s S"
  shows "sint (ucast (MIN64 (S - offset) (scast size')) :: int32_t)
         = min (sint size') (sint S - sint offset)"
proof -
  let ?w = "MIN64 (S - offset) (scast size')"
  have w: "sint ?w = min (sint size') (sint S - sint offset)"
    using assms(2,3)
    by (simp add: MIN64_def word_sless_alt sint_scast_up sint_sub_in_range min_def)
  have "0 < sint size'" "sint offset < sint S"
    using assms by (simp_all add: word_sless_alt)
  moreover have "sint size' < 2 ^ 31"
    using sint_lt [of size'] by simp
  ultimately have "0 \<le> sint ?w" "sint ?w < 2 ^ 31"
    unfolding w by simp_all
  then have "sint (ucast ?w :: int32_t) = sint ?w"
    by (rule sint_ucast_down)
  with w show ?thesis
    by simp
qed

lemma read_clamp_at_size:
  fixes size' :: int32_t
  assumes "0 <s size'"
  shows "(ucast (MIN64 (S - S) (scast size')) :: int32_t) = 0"
  using assms by (simp add: MIN64_def word_sless_alt sint_scast_up)

lemma ZVMReadHandle_at_size:
  assumes "\<not> ch <s 0" and "unat ch < length (channels nap)"
    and "0 <s size'"
    and "c = channels nap ! unat ch"
    and "\<not> size_ch c <s 0"
    and "CheckUserMap E (host nap) (NaClUserToSysAddrNullOkay E buffer) size' PROT_WRITE
           \<noteq> - 1"
    and "\<not> CH_SEQ_READABLE E c"
  shows "fst (ZVMReadHandle E nap ch buffer size' (size_ch c)) = 0"
  using assms positive_size [of size'] read_clamp_at_size [of size' "size_ch c"]
  by (simp add: ZVMReadHandle_def Let_def)

text \<open>
  Claim C2, at an offset beyond the size of a random-access channel. On a channel of
  size 10 with no quota used up and no end of file, a read of 5 bytes at offset 20
  passes the test \<^verbatim>\<open>size == 0\<close> with the size \<open>- 10\<close> and ends in the byte-quota test
  \<^verbatim>\<open>size < 1\<close>: the result is \<open>- EDQUOT\<close>, not 0. On the same channel, a read of 100
  bytes at offset \<open>2 ^ 32 + 9\<close> computes \<open>1 - 2 ^ 32\<close> in 64 bits, stores 1 in the 32-bit
  \<^verbatim>\<open>size\<close> and calls \<open>ChannelRead\<close> for 1 byte at that offset.
\<close>

theorem ZVMReadHandle_offset_beyond_size:
  "ZVMReadHandle example_collaborators
       (example_session (example_channel 3 10 0 False 10 0 10 0)) 0 4096 5 20
     = (- EDQUOT,
        ZLOGS LOG_INSANE ''channel %s, buffer=%p, size=%d, offset=%ld''
          (example_session (example_channel 3 10 0 False 10 0 10 0)))
   \<and> ZVMReadHandle example_collaborators
       (example_session (example_channel 3 10 0 False 10 0 10 0)) 0 4096 100 4294967305
     = ChannelRead example_collaborators
         (ZLOGS LOG_INSANE ''channel %s, buffer=%p, size=%d, offset=%ld''
            (example_session (example_channel 3 10 0 False 10 0 10 0)))
         0 4294971392 1 4294967305"
  by (simp add: ZVMReadHandle_def example_defs Let_def MIN64_def prot_defs log_defs
        errno_defs signed_defs)

text \<open>
  Claim C3, amended. Once the end-of-file flag of a channel is set, every read on it
  that passes the validation of its arguments (a handle of the table, a size and an
  offset that are not negative, and, unless the size is 0, a buffer that
  \<open>CheckUserMap\<close> accepts for writing) returns 0, whatever the limits and counters of
  the channel are. A read that fails the validation returns its error: \<open>- EFAULT\<close> for
  a negative size, \<open>- EINVAL\<close> for a negative offset and for a buffer that
  \<open>CheckUserMap\<close> refuses. In every case the session is left as it was, the log apart.
\<close>

theorem ZVMReadHandle_eof_returns_0:
  assumes "\<not> ch <s 0" and "unat ch < length (channels nap)"
    and "eof (channels nap ! unat ch)"
  shows "fst (ZVMReadHandle E nap ch buffer size' offset)
           = (if size' <s 0 then - EFAULT
              else if offset <s 0 then - EINVAL
              else if size' = 0 then 0
              else if CheckUserMap E (host nap) (NaClUserToSysAddrNullOkay E buffer) size'
                        PROT_WRITE = - 1
                then - EINVAL
              else 0)
         \<and> same_but_log nap (snd (ZVMReadHandle E nap ch buffer size' offset))"
  using assms by (auto simp: ZVMReadHandle_def Let_def same_but_log_ZLOGS)

theorem ZVMReadHandle_eof_returns_0_witness:
  "eof (channels (example_session (example_channel 3 10 0 True 1 1 10 10)) ! unat (0 :: int32_t))
   \<and> fst (ZVMReadHandle example_collaborators
            (example_session (example_channel 3 10 0 True 1 1 10 10)) 0 4096 5 0) = 0
   \<and> same_but_log (example_session (example_channel 3 10 0 True 1 1 10 10))
        (snd (ZVMReadHandle example_collaborators
            (example_session (example_channel 3 10 0 True 1 1 10 10)) 0 4096 5 0))
   \<and> fst (ZVMReadHandle example_collaborators
            (example_session (example_channel 3 10 0 True 1 1 10 10)) 0 4096 5 (- 1))
       = - EINVAL
   \<and> fst (ZVMReadHandle (example_collaborators\<lparr>CheckUserMap := \<lambda>h a n p. - 1\<rparr>)
            (example_session (example_channel 3 10 0 True 1 1 10 10)) 0 4096 5 0)
       = - EINVAL"
  using ZVMReadHandle_eof_returns_0
          [of 0 "example_session (example_channel 3 10 0 True 1 1 10 10)"
              example_collaborators 4096 5 0]
        ZVMReadHandle_eof_returns_0
          [of 0 "example_session (example_channel 3 10 0 True 1 1 10 10)"
              example_collaborators 4096 5 "- 1"]
        ZVMReadHandle_eof_returns_0
          [of 0 "example_session (example_channel 3 10 0 True 1 1 10 10)"
              "example_collaborators\<lparr>CheckUserMap := \<lambda>h a n p. - 1\<rparr>" 4096 5 0]
  by (simp add: example_defs prot_defs signed_defs)

text \<open>The claim as stated fails: with the flag set, a read of negative size on the
  channel returns \<open>- EFAULT\<close>.\<close>

theorem ZVMReadHandle_eof_error_counterexample:
  "eof (channels (example_session (example_channel 3 10 0 True 10 0 10 0)) ! unat (0 :: int32_t))
   \<and> fst (ZVMReadHandle example_collaborators
            (example_session (example_channel 3 10 0 True 10 0 10 0)) 0 4096 (- 1) 0)
       = - EFAULT
   \<and> - EFAULT \<noteq> (0 :: int32_t)"
  by (simp add: ZVMReadHandle_def example_defs Let_def errno_defs signed_defs)

section \<open>Quotas and bounds of the read and write handlers\<close>

text \<open>
  Claim C4, amended. On a channel whose counter of operations has reached its limit, a
  read or write of positive size that passes the validation of its arguments transfers
  nothing and leaves the session as it was, the log apart. The write returns
  \<open>- EDQUOT\<close>. The read returns \<open>- EDQUOT\<close> too, unless the end-of-file flag is set or the
  channel is not sequential and the clamp to its size leaves the size 0: then it
  returns 0.
\<close>

theorem count_quota_exhausted_no_transfer:
  assumes "\<not> ch <s 0" and "unat ch < length (channels nap)"
    and "0 <s size'" and "\<not> offset <s 0"
    and "c = channels nap ! unat ch"
    and "sys_buffer = NaClUserToSysAddrNullOkay E buffer"
  shows "(limits c GetsLimit \<le>s counters c GetsLimit
          \<and> CheckUserMap E (host nap) sys_buffer size' PROT_WRITE \<noteq> - 1
          \<longrightarrow> fst (ZVMReadHandle E nap ch buffer size' offset)
                = (if eof c \<or> (\<not> CH_SEQ_READABLE E c
                      \<and> (ucast (MIN64 (size_ch c - offset) (scast size')) :: int32_t) = 0)
                   then 0 else - EDQUOT)
              \<and> same_but_log nap (snd (ZVMReadHandle E nap ch buffer size' offset)))
       \<and> (limits c PutsLimit \<le>s counters c PutsLimit
          \<and> CheckUserMap E (host nap) sys_buffer size' PROT_READ \<noteq> - 1
          \<longrightarrow> fst (ZVMWriteHandle E nap ch buffer size' offset) = - EDQUOT
              \<and> same_but_log nap (snd (ZVMWriteHandle E nap ch buffer size' offset)))"
  using assms positive_size [of size']
  by (auto simp: ZVMReadHandle_def ZVMWriteHandle_def Let_def same_but_log_ZLOGS)

theorem count_quota_exhausted_no_transfer_witness:
  "fst (ZVMReadHandle example_collaborators
          (example_session (example_channel 3 10 0 False 1 1 10 0)) 0 4096 5 0) = - EDQUOT
   \<and> same_but_log (example_session (example_channel 3 10 0 False 1 1 10 0))
        (snd (ZVMReadHandle example_collaborators
          (example_session (example_channel 3 10 0 False 1 1 10 0)) 0 4096 5 0))
   \<and> fst (ZVMWriteHandle example_collaborators
          (example_session (example_channel 3 10 0 False 1 1 10 0)) 0 4096 5 0) = - EDQUOT
   \<and> same_but_log (example_session (example_channel 3 10 0 False 1 1 10 0))
        (snd (ZVMWriteHandle example_collaborators
          (example_session (example_channel 3 10 0 False 1 1 10 0)) 0 4096 5 0))"
proof -
  let ?c = "example_channel 3 10 0 False 1 1 10 0"
  let ?nap = "example_session ?c"
  have valid: "\<not> (0 :: int32_t) <s 0" "unat (0 :: int32_t) < length (channels ?nap)"
      "0 <s (5 :: int32_t)" "\<not> (0 :: int64_t) <s 0"
      "?c = channels ?nap ! unat (0 :: int32_t)"
      "(4294971392 :: uintptr_t) = NaClUserToSysAddrNullOkay example_collaborators 4096"
    by (simp_all add: example_session_def example_collaborators_def signed_defs)
  have quota: "limits ?c GetsLimit \<le>s counters ?c GetsLimit"
      "limits ?c PutsLimit \<le>s counters ?c PutsLimit"
    by (simp_all add: example_channel_def signed_defs)
  have buffer:
      "CheckUserMap example_collaborators (host ?nap) 4294971392 5 PROT_WRITE \<noteq> - 1"
      "CheckUserMap example_collaborators (host ?nap) 4294971392 5 PROT_READ \<noteq> - 1"
    by (simp_all add: example_session_def example_collaborators_def prot_defs)
  have branch: "\<not> eof ?c" "\<not> CH_SEQ_READABLE example_collaborators ?c"
      "(ucast (MIN64 (size_ch ?c - 0) (scast (5 :: int32_t))) :: int32_t) \<noteq> 0"
    by (simp_all add: example_channel_def example_collaborators_def MIN64_def signed_defs)
  from count_quota_exhausted_no_transfer [OF valid] quota buffer branch
  show ?thesis
    by simp
qed

text \<open>The claim as stated fails for reads: on a channel with the counter of reads at its
  limit and the end-of-file flag set, a valid read returns 0, not \<open>- EDQUOT\<close>.\<close>

theorem ZVMReadHandle_quota_at_eof_counterexample:
  "limits (channels (example_session (example_channel 3 10 0 True 1 1 10 0)) ! unat (0 :: int32_t))
       GetsLimit
     \<le>s counters (channels (example_session (example_channel 3 10 0 True 1 1 10 0))
                    ! unat (0 :: int32_t)) GetsLimit
   \<and> fst (ZVMReadHandle example_collaborators
            (example_session (example_channel 3 10 0 True 1 1 10 0)) 0 4096 5 0) = 0
   \<and> (0 :: int32_t) \<noteq> - EDQUOT"
  by (simp add: ZVMReadHandle_def example_defs Let_def MIN64_def prot_defs errno_defs
        signed_defs)

text \<open>
  Claim C5. In the write handler, past the validation of the arguments and the test of
  the counter of writes: with \<open>off\<close> the effective offset (the cursor \<^verbatim>\<open>putpos\<close> of a
  sequential channel, the caller's offset otherwise) and \<open>tail\<close> the bytes left of the
  quota, the write returns \<open>- EINVAL\<close> when the channel is writable at random and
  \<open>off\<close> is at or beyond \<^verbatim>\<open>limits[PutSizeLimit]\<close>, and when \<open>off\<close> is at or beyond
  \<^verbatim>\<open>channel->size + tail\<close>. Nothing is transferred: the session is as it was, the log
  apart.
\<close>

theorem ZVMWriteHandle_offset_bounds:
  assumes "\<not> ch <s 0" and "unat ch < length (channels nap)"
    and "0 <s size'" and "\<not> offset <s 0"
    and "c = channels nap ! unat ch"
    and "CheckUserMap E (host nap) (NaClUserToSysAddrNullOkay E buffer) size' PROT_READ
           \<noteq> - 1"
    and "\<not> limits c PutsLimit \<le>s counters c PutsLimit"
    and "off = (if CH_SEQ_WRITEABLE E c then putpos c else offset)"
    and "tail = limits c PutSizeLimit - counters c PutSizeLimit"
    and "(CH_RND_WRITEABLE E c \<and> limits c PutSizeLimit \<le>s off) \<or> size_ch c + tail \<le>s off"
  shows "fst (ZVMWriteHandle E nap ch buffer size' offset) = - EINVAL
         \<and> same_but_log nap (snd (ZVMWriteHandle E nap ch buffer size' offset))"
  using assms positive_size [of size']
  by (auto simp: ZVMWriteHandle_def Let_def same_but_log_ZLOGS)

theorem ZVMWriteHandle_offset_bounds_witness:
  "CH_RND_WRITEABLE example_collaborators (example_channel 3 100 0 False 10 0 50 0)
   \<and> fst (ZVMWriteHandle example_collaborators
          (example_session (example_channel 3 100 0 False 10 0 50 0)) 0 4096 5 50) = - EINVAL
   \<and> same_but_log (example_session (example_channel 3 100 0 False 10 0 50 0))
        (snd (ZVMWriteHandle example_collaborators
          (example_session (example_channel 3 100 0 False 10 0 50 0)) 0 4096 5 50))
   \<and> fst (ZVMWriteHandle example_collaborators
          (example_session (example_channel 3 10 0 False 10 0 50 20)) 0 4096 5 40) = - EINVAL
   \<and> same_but_log (example_session (example_channel 3 10 0 False 10 0 50 20))
        (snd (ZVMWriteHandle example_collaborators
          (example_session (example_channel 3 10 0 False 10 0 50 20)) 0 4096 5 40))"
  using ZVMWriteHandle_offset_bounds
          [of 0 "example_session (example_channel 3 100 0 False 10 0 50 0)" 5 50
              "example_channel 3 100 0 False 10 0 50 0" example_collaborators 4096 50 50]
        ZVMWriteHandle_offset_bounds
          [of 0 "example_session (example_channel 3 10 0 False 10 0 50 20)" 5 40
              "example_channel 3 10 0 False 10 0 50 20" example_collaborators 4096 40 30]
  by (simp add: example_defs prot_defs signed_defs)

text \<open>
  Claim C10, amended. The test against \<^verbatim>\<open>channel->size + tail\<close> is made for every
  channel. For a channel writable in sequence it is made on the cursor \<^verbatim>\<open>putpos\<close>: a
  write of positive size that passes the validation of its arguments, on a channel whose
  counter of writes is below its limit, returns \<open>- EINVAL\<close> once the cursor has reached
  \<^verbatim>\<open>channel->size\<close> plus the bytes left of the quota, whatever offset the caller gives
  and whether or not the channel is writable at random as well.
\<close>

theorem ZVMWriteHandle_seq_cursor_bound:
  assumes "\<not> ch <s 0" and "unat ch < length (channels nap)"
    and "0 <s size'" and "\<not> offset <s 0"
    and "c = channels nap ! unat ch"
    and "CheckUserMap E (host nap) (NaClUserToSysAddrNullOkay E buffer) size' PROT_READ
           \<noteq> - 1"
    and "\<not> limits c PutsLimit \<le>s counters c PutsLimit"
    and "CH_SEQ_WRITEABLE E c"
    and "size_ch c + (limits c PutSizeLimit - counters c PutSizeLimit) \<le>s putpos c"
  shows "fst (ZVMWriteHandle E nap ch buffer size' offset) = - EINVAL
         \<and> same_but_log nap (snd (ZVMWriteHandle E nap ch buffer size' offset))"
  using assms positive_size [of size']
  by (auto simp: ZVMWriteHandle_def Let_def same_but_log_ZLOGS)

theorem ZVMWriteHandle_seq_cursor_bound_witness:
  "CH_SEQ_WRITEABLE example_collaborators (example_channel 0 50 100 False 10 0 100 50)
   \<and> \<not> CH_RND_WRITEABLE example_collaborators (example_channel 0 50 100 False 10 0 100 50)
   \<and> fst (ZVMWriteHandle example_collaborators
          (example_session (example_channel 0 50 100 False 10 0 100 50)) 0 4096 5 0) = - EINVAL
   \<and> same_but_log (example_session (example_channel 0 50 100 False 10 0 100 50))
        (snd (ZVMWriteHandle example_collaborators
          (example_session (example_channel 0 50 100 False 10 0 100 50)) 0 4096 5 0))"
  using ZVMWriteHandle_seq_cursor_bound
          [of 0 "example_session (example_channel 0 50 100 False 10 0 100 50)" 5 0
              "example_channel 0 50 100 False 10 0 100 50" example_collaborators 4096]
  by (simp add: example_defs prot_defs signed_defs)

text \<open>The claim as stated fails: with the cursor at \<^verbatim>\<open>channel->size + tail\<close> and the
  counter of writes at its limit, a valid sequential write returns \<open>- EDQUOT\<close>.\<close>

theorem ZVMWriteHandle_seq_cursor_quota_counterexample:
  "CH_SEQ_WRITEABLE example_collaborators (example_channel 0 50 100 False 1 1 100 50)
   \<and> size_ch (example_channel 0 50 100 False 1 1 100 50)
       + (limits (example_channel 0 50 100 False 1 1 100 50) PutSizeLimit
          - counters (example_channel 0 50 100 False 1 1 100 50) PutSizeLimit)
     \<le>s putpos (example_channel 0 50 100 False 1 1 100 50)
   \<and> fst (ZVMWriteHandle example_collaborators
          (example_session (example_channel 0 50 100 False 1 1 100 50)) 0 4096 5 0) = - EDQUOT
   \<and> - EDQUOT \<noteq> - EINVAL"
  by (simp add: ZVMWriteHandle_def example_defs Let_def prot_defs errno_defs signed_defs)

text \<open>
  Claim C9. With a handle of the table and an offset that is not negative, a read and a
  write of size 0 return 0 and leave the session as it was, the log apart (no counter
  moves): for every buffer address and whatever \<open>CheckUserMap\<close> says of it.
\<close>

theorem zero_size_returns_0:
  assumes "\<not> ch <s 0" and "unat ch < length (channels nap)" and "\<not> offset <s 0"
  shows "fst (ZVMReadHandle E nap ch buffer 0 offset) = 0
         \<and> same_but_log nap (snd (ZVMReadHandle E nap ch buffer 0 offset))
         \<and> fst (ZVMWriteHandle E nap ch buffer 0 offset) = 0
         \<and> same_but_log nap (snd (ZVMWriteHandle E nap ch buffer 0 offset))"
  using assms
  by (simp add: ZVMReadHandle_def ZVMWriteHandle_def Let_def same_but_log_ZLOGS)

theorem zero_size_returns_0_witness:
  "CheckUserMap (example_collaborators\<lparr>CheckUserMap := \<lambda>h a n p. - 1\<rparr>)
       (host (example_session (example_channel 3 10 0 False 10 0 10 0))) 0 0 PROT_WRITE = - 1
   \<and> fst (ZVMReadHandle (example_collaborators\<lparr>CheckUserMap := \<lambda>h a n p. - 1\<rparr>)
          (example_session (example_channel 3 10 0 False 10 0 10 0)) 0 0 0 7) = 0
   \<and> fst (ZVMWriteHandle (example_collaborators\<lparr>CheckUserMap := \<lambda>h a n p. - 1\<rparr>)
          (example_session (example_channel 3 10 0 False 10 0 10 0)) 0 0 0 7) = 0"
  using zero_size_returns_0
          [of 0 "example_session (example_channel 3 10 0 False 10 0 10 0)" 7
              "example_collaborators\<lparr>CheckUserMap := \<lambda>h a n p. - 1\<rparr>" 0]
  by (simp add: example_defs signed_defs)

section \<open>The trap dispatcher\<close>

text \<open>
  Claim C6. When the address of the argument vector is above \<open>2 ^ 32 - 48\<close>, so that the
  48 bytes of the vector do not fit below \<open>2 ^ 32\<close>, \<^verbatim>\<open>TrapHandler\<close> returns \<open>- EFAULT\<close>
  with the session untouched, the log included: no address is translated, no word of
  the vector is read, no handler runs.
\<close>

theorem TrapHandler_args_overflow_EFAULT:
  assumes "2 ^ 32 - 48 < unat args"
  shows "TrapHandler E nap args = Returned (- EFAULT) nap"
proof -
  have "unat (- 48 :: uint32_t) = 2 ^ 32 - 48"
    by simp
  with assms have "- 48 < args"
    by (simp add: word_less_nat_alt)
  then show ?thesis
    by (simp add: TrapHandler_def)
qed

theorem TrapHandler_args_overflow_EFAULT_witness:
  "2 ^ 32 - 48 < unat (4294967249 :: uint32_t)
   \<and> TrapHandler example_collaborators
         (example_session (example_channel 3 10 0 False 10 0 10 0)) 4294967249
       = Returned (- EFAULT) (example_session (example_channel 3 10 0 False 10 0 10 0))"
  using TrapHandler_args_overflow_EFAULT
          [of 4294967249 example_collaborators
              "example_session (example_channel 3 10 0 False 10 0 10 0)"]
  by simp

text \<open>
  Claim C8, amended. When the address of the argument vector passes the bounds test
  (it is at most \<open>2 ^ 32 - 48\<close>) and word 0 of the vector is none of \<^verbatim>\<open>TrapFork\<close>,
  \<^verbatim>\<open>TrapExit\<close>, \<^verbatim>\<open>TrapRead\<close>, \<^verbatim>\<open>TrapWrite\<close>, \<^verbatim>\<open>TrapProt\<close>, \<^verbatim>\<open>TrapTest\<close>, \<^verbatim>\<open>TrapHandler\<close>
  returns \<open>- EPERM\<close> and the session is as it was but for the lines logged and traced:
  channels, host state and report are the same.
\<close>

theorem TrapHandler_unknown_EPERM:
  assumes "\<not> - 48 < args"
    and "fn = load64 E (host nap) (NaClUserToSys E (ucast args))"
    and "fn \<noteq> TrapFork E" and "fn \<noteq> TrapExit E" and "fn \<noteq> TrapRead E"
    and "fn \<noteq> TrapWrite E" and "fn \<noteq> TrapProt E" and "fn \<noteq> TrapTest E"
  shows "\<exists>nap'. TrapHandler E nap args = Returned (- EPERM) nap' \<and> same_but_log nap nap'"
  using assms
  by (simp add: TrapHandler_def Let_def sarg_def ztrace_and_return_def log_defs
        same_but_log_def)

theorem TrapHandler_unknown_EPERM_witness:
  "load64 example_collaborators
       (host (example_session (example_channel 3 10 0 False 10 0 10 0)))
       (NaClUserToSys example_collaborators (ucast (4096 :: uint32_t))) = 999
   \<and> (\<exists>nap'. TrapHandler example_collaborators
                (example_session (example_channel 3 10 0 False 10 0 10 0)) 4096
              = Returned (- EPERM) nap'
            \<and> same_but_log (example_session (example_channel 3 10 0 False 10 0 10 0)) nap')"
  using TrapHandler_unknown_EPERM
          [of 4096 999 example_collaborators
              "example_session (example_channel 3 10 0 False 10 0 10 0)"]
  by (simp add: example_defs)

text \<open>The claim as stated fails: with the vector at \<open>2 ^ 32 - 16\<close>, whose word 0 is 999
  and no operation code, the trap returns \<open>- EFAULT\<close>.\<close>

theorem TrapHandler_unknown_EFAULT_counterexample:
  "load64 example_collaborators
       (host (example_session (example_channel 3 10 0 False 10 0 10 0)))
       (NaClUserToSys example_collaborators (ucast (4294967280 :: uint32_t))) = 999
   \<and> 999 \<noteq> TrapFork example_collaborators \<and> 999 \<noteq> TrapExit example_collaborators
   \<and> 999 \<noteq> TrapRead example_collaborators \<and> 999 \<noteq> TrapWrite example_collaborators
   \<and> 999 \<noteq> TrapProt example_collaborators \<and> 999 \<noteq> TrapTest example_collaborators
   \<and> TrapHandler example_collaborators
         (example_session (example_channel 3 10 0 False 10 0 10 0)) 4294967280
       = Returned (- EFAULT) (example_session (example_channel 3 10 0 False 10 0 10 0))
   \<and> - EFAULT \<noteq> - EPERM"
  by (simp add: TrapHandler_def example_defs errno_defs)

end
